theory Spec2Isabelle
  imports Main "HOL-Library.Word"
begin

text \<open>
  A shallow embedding of three parts of the media repository: the datastore registry
  (\<open>storage/ds_utils.go\<close>), the thumbnailer (\<open>thumbnail_service/thumbnailer.go\<close>) and
  the federation resolver and fetcher (\<open>GetServerApiUrl\<close>, \<open>FederatedGet\<close>). What a
  function gets from outside (the database, the file system, the image library, the
  network, the clock) is a parameter of its model: a record of functions, one per
  operation the source calls. Logging is left out; it has no part in any result.
\<close>

section \<open>Errors\<close>

text \<open>
  Go's \<open>error\<close> values, as far as the modelled functions tell them apart:
  \<open>sql.ErrNoRows\<close>, the storage layer's uniqueness violation, \<open>net.AddrError\<close>
  with its fields \<open>Err\<close> and \<open>Addr\<close>, an error made by \<open>errors.New\<close>, and a
  run-time panic (a slice expression out of range), which is no error return in Go
  but ends the call all the same.
\<close>

datatype error =
    ErrNoRows
  | UniqueViolation
  | AddrError string string
  | ErrorString string
  | Panic string

text \<open>The method \<open>Error()\<close>; for \<open>net.AddrError\<close> as the net package writes it.\<close>

fun Error :: "error \<Rightarrow> string" where
  "Error ErrNoRows = ''sql: no rows in result set''"
| "Error UniqueViolation = ''duplicate key value violates unique constraint''"
| "Error (AddrError why addr) = (if addr \<noteq> [] then ''address '' @ addr @ '': '' @ why else why)"
| "Error (ErrorString s) = s"
| "Error (Panic s) = s"

type_synonym byte = "8 word"

section \<open>Datastore registry (storage/ds\_utils.go)\<close>

record Datastore =
  DatastoreId :: string
  Type :: string
  Uri :: string

text \<open>
  The media store and \<open>util.GenerateRandomString\<close> are not part of the sources at
  hand, so \<open>GetOrCreateDatastoreOfType\<close> takes them as parameters. A lookup returns
  Go's pair of a pointer (\<open>None\<close> is \<open>nil\<close>) and an error (\<open>None\<close> is \<open>nil\<close>); an
  insert returns its error and the new state of the store; the generator returns the
  string or the error and the new state of the random source.
\<close>

record ('s, 'r) MediaStore =
  GetDatastoreByUri :: "'s \<Rightarrow> string \<Rightarrow> Datastore option \<times> error option"
  InsertDatastore :: "'s \<Rightarrow> Datastore \<Rightarrow> error option \<times> 's"
  GenerateRandomString :: "'r \<Rightarrow> nat \<Rightarrow> (error + string) \<times> 'r"

text \<open>
  Lines 13 to 34. The result is Go's pair \<open>(*types.Datastore, error)\<close>, with the store
  and the random source after the call. The condition
  \<open>err != nil && err == sql.ErrNoRows\<close> is kept as written; every other outcome of the
  lookup falls through to \<open>return datastore, nil\<close>.
\<close>

definition GetOrCreateDatastoreOfType ::
  "('s, 'r) MediaStore \<Rightarrow> 's \<Rightarrow> 'r \<Rightarrow> string \<Rightarrow> string
     \<Rightarrow> (Datastore option \<times> error option) \<times> 's \<times> 'r" where
  "GetOrCreateDatastoreOfType mediaService s r dsType dsUri =
    (case GetDatastoreByUri mediaService s dsUri of
      (datastore, err) \<Rightarrow>
        if err \<noteq> None \<and> err = Some ErrNoRows then
          (case GenerateRandomString mediaService r 32 of
            (Inl err2, r') \<Rightarrow> ((None, Some err2), s, r')
          | (Inr ident, r') \<Rightarrow>
              (let datastore' = \<lparr>DatastoreId = ident, Type = dsType, Uri = dsUri\<rparr> in
                (case InsertDatastore mediaService s datastore' of
                  (Some err2, s') \<Rightarrow> ((None, Some err2), s', r')
                | (None, s') \<Rightarrow> ((Some datastore', None), s', r'))))
        else ((datastore, None), s, r))"

text \<open>
  Lines 36 to 60, the same for the base path of a file store. Here a lookup error
  other than \<open>sql.ErrNoRows\<close> is returned to the caller (lines 54 to 57).
\<close>

definition getOrCreateDatastoreWithMediaService ::
  "('s, 'r) MediaStore \<Rightarrow> 's \<Rightarrow> 'r \<Rightarrow> string
     \<Rightarrow> (Datastore option \<times> error option) \<times> 's \<times> 'r" where
  "getOrCreateDatastoreWithMediaService mediaService s r basePath =
    (case GetDatastoreByUri mediaService s basePath of
      (datastore, err) \<Rightarrow>
        if err \<noteq> None \<and> err = Some ErrNoRows then
          (case GenerateRandomString mediaService r 32 of
            (Inl err2, r') \<Rightarrow> ((None, Some err2), s, r')
          | (Inr ident, r') \<Rightarrow>
              (let datastore' = \<lparr>DatastoreId = ident, Type = ''file'', Uri = basePath\<rparr> in
                (case InsertDatastore mediaService s datastore' of
                  (Some err2, s') \<Rightarrow> ((None, Some err2), s', r')
                | (None, s') \<Rightarrow> ((Some datastore', None), s', r'))))
        else if err \<noteq> None then ((None, err), s, r)
        else ((datastore, None), s, r))"

subsection \<open>A table with unique uris, and a generator of identifiers\<close>

text \<open>
  Modelled from the spec: the persistence layer behind \<open>GetDatastoreByUri\<close> and
  \<open>InsertDatastore\<close> (stores.MediaStore, not among the sources). The spec gives it
  the outcomes not-found, ok and conflict and says that it enforces uniqueness on
  \<open>uri\<close>: a table of records in which a lookup by uri finds the record stored under
  it, and an insert of a uri already present is refused.
\<close>

type_synonym table = "Datastore list"

definition table_GetDatastoreByUri :: "table \<Rightarrow> string \<Rightarrow> Datastore option \<times> error option" where
  "table_GetDatastoreByUri t uri =
    (case find (\<lambda>d. Uri d = uri) t of
      None \<Rightarrow> (None, Some ErrNoRows)
    | Some d \<Rightarrow> (Some d, None))"

definition table_InsertDatastore :: "table \<Rightarrow> Datastore \<Rightarrow> error option \<times> table" where
  "table_InsertDatastore t d =
    (case find (\<lambda>e. Uri e = Uri d) t of
      Some e \<Rightarrow> (Some UniqueViolation, t)
    | None \<Rightarrow> (None, t @ [d]))"

text \<open>
  Modelled from the spec: \<open>util.GenerateRandomString\<close> (not among the sources), which
  the spec describes as giving a random identifier of the asked length over the
  alphabet A-Z, a-z, 0-9, and as able to fail. The random source is a list of numbers
  still to be drawn; the call fails when the source runs dry.
\<close>

definition alphabet :: string where
  "alphabet = ''ABCDEFGHIJKLMNOPQRSTUVWXYZabcdefghijklmnopqrstuvwxyz0123456789''"

definition random_GenerateRandomString :: "nat list \<Rightarrow> nat \<Rightarrow> (error + string) \<times> nat list" where
  "random_GenerateRandomString rnd n =
    (if length rnd < n then (Inl (ErrorString ''random source failed''), rnd)
     else (Inr (map (\<lambda>b. alphabet ! (b mod 62)) (take n rnd)), drop n rnd))"

text \<open>The identifier that a call asking for 32 characters draws from the source.\<close>

definition fresh_id :: "nat list \<Rightarrow> string" where
  "fresh_id rnd = map (\<lambda>b. alphabet ! (b mod 62)) (take 32 rnd)"

definition table_store :: "(table, nat list) MediaStore" where
  "table_store =
    \<lparr>GetDatastoreByUri = table_GetDatastoreByUri,
     InsertDatastore = table_InsertDatastore,
     GenerateRandomString = random_GenerateRandomString\<rparr>"

text \<open>
  \<open>n\<close> calls of \<open>GetOrCreateDatastoreOfType\<close> one after the other on the table, each
  on the state the one before left: the results in the order of the calls, and the
  table and the random source after the last call.
\<close>

fun sequential_calls ::
  "nat \<Rightarrow> table \<Rightarrow> nat list \<Rightarrow> string \<Rightarrow> string
     \<Rightarrow> (Datastore option \<times> error option) list \<times> table \<times> nat list" where
  "sequential_calls 0 t rnd dsType dsUri = ([], t, rnd)"
| "sequential_calls (Suc n) t rnd dsType dsUri =
    (case GetOrCreateDatastoreOfType table_store t rnd dsType dsUri of
      (res, t', rnd') \<Rightarrow>
        (case sequential_calls n t' rnd' dsType dsUri of
          (results, t'', rnd'') \<Rightarrow> (res # results, t'', rnd'')))"

subsection \<open>Two stores that fail\<close>

text \<open>
  A store in which a concurrent caller wins every race: between the lookup and the
  insert the rival's record for the same uri arrives, so the insert is refused as a
  uniqueness violation, and a lookup after that finds the rival's record.
\<close>

definition rival :: "string \<Rightarrow> Datastore" where
  "rival uri = \<lparr>DatastoreId = replicate 32 CHR ''b'', Type = ''file'', Uri = uri\<rparr>"

definition racing_store :: "(Datastore list, unit) MediaStore" where
  "racing_store =
    \<lparr>GetDatastoreByUri = (\<lambda>s uri.
        case find (\<lambda>d. Uri d = uri) s of
          None \<Rightarrow> (None, Some ErrNoRows)
        | Some d \<Rightarrow> (Some d, None)),
     InsertDatastore = (\<lambda>s d. (Some UniqueViolation, s @ [rival (Uri d)])),
     GenerateRandomString = (\<lambda>r n. (Inr (replicate n CHR ''a''), r))\<rparr>"

text \<open>A store whose lookups fail, the connection to the database being lost.\<close>

definition broken_store :: "(unit, unit) MediaStore" where
  "broken_store =
    \<lparr>GetDatastoreByUri = (\<lambda>s uri. (None, Some (ErrorString ''connection refused''))),
     InsertDatastore = (\<lambda>s d. (None, s)),
     GenerateRandomString = (\<lambda>r n. (Inr (replicate n CHR ''a''), r))\<rparr>"


section \<open>Thumbnailer (thumbnail\_service/thumbnailer.go)\<close>

text \<open>
  Of \<open>types.Media\<close> the fields that \<open>GenerateThumbnail\<close> reads; \<open>generatedThumbnail\<close>
  as declared in lines 20 to 25. \<open>int\<close> and \<open>int64\<close> are only copied and compared, so
  they are integers here.
\<close>

record Media =
  ContentType :: string
  Location :: string
  SizeBytes :: int

record generatedThumbnail =
  ContentType :: string
  DiskLocation :: string
  SizeBytes :: int
  Animated :: bool

text \<open>
  What the thumbnailer calls outside itself. \<open>'img\<close> is \<open>image.Image\<close>, \<open>'gif\<close> is
  \<open>gif.GIF\<close>, \<open>'fs\<close> the state of the file system.
  \<^item> \<open>animatedTypes\<close>: the package variable of that name (declared in another file).
  \<^item> \<open>imaging_Open\<close>, \<open>Bounds_Max\<close>: \<open>imaging.Open\<close> and \<open>src.Bounds().Max\<close> as \<open>(X, Y)\<close>.
  \<^item> \<open>float32_ratio_eq srcHeight srcWidth width height\<close>: the comparison of line 52,
    \<open>float32(srcHeight) / float32(srcWidth) == float32(width) / float32(height)\<close>.
    Floating point is not modelled; the comparison only chooses the method.
  \<^item> \<open>imaging_Fit\<close>, \<open>imaging_Fill\<close>: the two resamplings, with the Lanczos filter and
    the centre anchor of the source.
  \<^item> \<open>os_Open\<close>, \<open>gif_DecodeAll\<close>, \<open>gif_Image\<close>, \<open>gif_with_Image\<close>: opening and decoding
    the animation, its frames \<open>g.Image\<close>, and \<open>g\<close> with its frames replaced.
  \<^item> \<open>NewPaletted_Draw frame frameThumb\<close>: lines 107 and 108, a new paletted image
    of the thumbnail's bounds with the old frame's palette, the thumbnail drawn over it.
  \<^item> \<open>gif_EncodeAll\<close>, \<open>imaging_Encode\<close>: the encoders, to the bytes of the buffer.
  \<^item> \<open>PersistFile\<close>, \<open>FileSize\<close>: \<open>storage.PersistFile\<close> and \<open>util.FileSize\<close>; the
    first changes the file system.
\<close>

record ('img, 'gif, 'fs) imaging =
  animatedTypes :: "string list"
  imaging_Open :: "'fs \<Rightarrow> string \<Rightarrow> error + 'img"
  Bounds_Max :: "'img \<Rightarrow> int \<times> int"
  float32_ratio_eq :: "int \<Rightarrow> int \<Rightarrow> int \<Rightarrow> int \<Rightarrow> bool"
  imaging_Fit :: "'img \<Rightarrow> int \<Rightarrow> int \<Rightarrow> 'img"
  imaging_Fill :: "'img \<Rightarrow> int \<Rightarrow> int \<Rightarrow> 'img"
  os_Open :: "'fs \<Rightarrow> string \<Rightarrow> error option"
  gif_DecodeAll :: "'fs \<Rightarrow> string \<Rightarrow> error + 'gif"
  gif_Image :: "'gif \<Rightarrow> 'img list"
  gif_with_Image :: "'gif \<Rightarrow> 'img list \<Rightarrow> 'gif"
  NewPaletted_Draw :: "'img \<Rightarrow> 'img \<Rightarrow> 'img"
  gif_EncodeAll :: "'gif \<Rightarrow> error + byte list"
  imaging_Encode :: "'img \<Rightarrow> error + byte list"
  PersistFile :: "'fs \<Rightarrow> byte list \<Rightarrow> (error + string) \<times> 'fs"
  FileSize :: "'fs \<Rightarrow> string \<Rightarrow> error + int"

text \<open>
  Modelled from the spec: \<open>util.ArrayContains\<close> (not among the sources); the spec
  reads the call as the content type being in the set of animated types.
\<close>

definition ArrayContains :: "string list \<Rightarrow> string \<Rightarrow> bool" where
  "ArrayContains a v = (v \<in> set a)"

text \<open>Lines 151 to 161.\<close>

definition thumbnailFrame ::
  "('img, 'gif, 'fs) imaging \<Rightarrow> 'img \<Rightarrow> string \<Rightarrow> int \<Rightarrow> int \<Rightarrow> error + 'img" where
  "thumbnailFrame env src method width height =
    (if method = ''scale'' then Inr (imaging_Fit env src width height)
     else if method = ''crop'' then Inr (imaging_Fill env src width height)
     else Inl (ErrorString (''unrecognized method: '' @ method)))"

text \<open>
  The loop of lines 99 to 109 over the frames: each frame is replaced by its
  thumbnail, and the first frame that fails ends the call with its error.
\<close>

fun thumbnail_frames ::
  "('img, 'gif, 'fs) imaging \<Rightarrow> string \<Rightarrow> int \<Rightarrow> int \<Rightarrow> 'img list \<Rightarrow> error + 'img list" where
  "thumbnail_frames env method width height [] = Inr []"
| "thumbnail_frames env method width height (frame # frames) =
    (case thumbnailFrame env frame method width height of
      Inl err \<Rightarrow> Inl err
    | Inr frameThumb \<Rightarrow>
        (case thumbnail_frames env method width height frames of
          Inl err \<Rightarrow> Inl err
        | Inr rest \<Rightarrow> Inr (NewPaletted_Draw env frame frameThumb # rest)))"

text \<open>The animated branch, lines 80 to 115: the content type and the encoded bytes.\<close>

definition animated_thumbnail ::
  "('img, 'gif, 'fs) imaging \<Rightarrow> 'fs \<Rightarrow> Media \<Rightarrow> string \<Rightarrow> int \<Rightarrow> int
     \<Rightarrow> error + string \<times> byte list" where
  "animated_thumbnail env fs media method width height =
    (case os_Open env fs (Location media) of
      Some err \<Rightarrow> Inl err
    | None \<Rightarrow>
        (case gif_DecodeAll env fs (Location media) of
          Inl err \<Rightarrow> Inl err
        | Inr g \<Rightarrow>
            (case thumbnail_frames env method width height (gif_Image env g) of
              Inl err \<Rightarrow> Inl err
            | Inr frames \<Rightarrow>
                (case gif_EncodeAll env (gif_with_Image env g frames) of
                  Inl err \<Rightarrow> Inl err
                | Inr imgData \<Rightarrow> Inr (''image/gif'', imgData)))))"

text \<open>The still branch, lines 117 to 128, with the content type set in line 77.\<close>

definition still_thumbnail ::
  "('img, 'gif, 'fs) imaging \<Rightarrow> 'img \<Rightarrow> string \<Rightarrow> int \<Rightarrow> int \<Rightarrow> error + string \<times> byte list" where
  "still_thumbnail env src method width height =
    (case thumbnailFrame env src method width height of
      Inl err \<Rightarrow> Inl err
    | Inr src' \<Rightarrow>
        (case imaging_Encode env src' of
          Inl err \<Rightarrow> Inl err
        | Inr imgData \<Rightarrow> Inr (''image/png'', imgData)))"

text \<open>Lines 131 to 148: the bytes are stored, the file's size is read, the record filled in.\<close>

definition store_thumbnail ::
  "('img, 'gif, 'fs) imaging \<Rightarrow> 'fs \<Rightarrow> generatedThumbnail \<Rightarrow> string \<Rightarrow> byte list
     \<Rightarrow> (error + generatedThumbnail) \<times> 'fs" where
  "store_thumbnail env fs thumb contentType imgData =
    (case PersistFile env fs imgData of
      (Inl err, fs') \<Rightarrow> (Inl err, fs')
    | (Inr location, fs') \<Rightarrow>
        (case FileSize env fs' location of
          Inl err \<Rightarrow> (Inl err, fs')
        | Inr fileSize \<Rightarrow>
            (Inr (thumb\<lparr>DiskLocation := location, ContentType := contentType, SizeBytes := fileSize\<rparr>),
             fs')))"

text \<open>
  Lines 36 to 149. The result is the thumbnail or the error, with the file system
  after the call. The record starts as \<open>&generatedThumbnail{Animated: animated}\<close>, its
  other fields at Go's zero values.
\<close>

definition GenerateThumbnail ::
  "('img, 'gif, 'fs) imaging \<Rightarrow> 'fs \<Rightarrow> Media \<Rightarrow> int \<Rightarrow> int \<Rightarrow> string \<Rightarrow> bool \<Rightarrow> bool
     \<Rightarrow> (error + generatedThumbnail) \<times> 'fs" where
  "GenerateThumbnail env fs media width height method animated forceGeneration =
    (let animated =
       (if animated \<and> \<not> ArrayContains (animatedTypes env) (Media.ContentType media)
        then False else animated)
     in
      case imaging_Open env fs (Location media) of
        Inl err \<Rightarrow> (Inl err, fs)
      | Inr src \<Rightarrow>
          (let srcWidth = fst (Bounds_Max env src);
               srcHeight = snd (Bounds_Max env src);
               method =
                 (if float32_ratio_eq env srcHeight srcWidth width height then ''scale'' else method);
               thumb = \<lparr>ContentType = [], DiskLocation = [], SizeBytes = 0, Animated = animated\<rparr>
           in
            if srcWidth \<le> width \<and> srcHeight \<le> height \<and> \<not> forceGeneration then
              (Inr (thumb\<lparr>ContentType := Media.ContentType media,
                         DiskLocation := Location media,
                         SizeBytes := Media.SizeBytes media\<rparr>), fs)
            else
              (let width' = (if srcWidth \<le> width \<and> srcHeight \<le> height then srcWidth else width);
                   height' = (if srcWidth \<le> width \<and> srcHeight \<le> height then srcHeight else height)
               in
                case
                  (if animated \<and> ArrayContains (animatedTypes env) (Media.ContentType media)
                   then animated_thumbnail env fs media method width' height'
                   else still_thumbnail env src method width' height')
                of
                  Inl err \<Rightarrow> (Inl err, fs)
                | Inr (contentType, imgData) \<Rightarrow> store_thumbnail env fs thumb contentType imgData)))"

subsection \<open>A small image library\<close>

text \<open>
  An instance to run the thumbnailer on: an image is its width and height, an
  animation the list of its frames, the file system the list of the files persisted
  so far. Three media files can be decoded, any other path cannot.
\<close>

definition studio :: "(int \<times> int, (int \<times> int) list, (string \<times> byte list) list) imaging" where
  "studio =
    \<lparr>animatedTypes = [''image/gif''],
     imaging_Open = (\<lambda>fs path.
        if path = ''/media/small.jpg'' then Inr (200, 100)
        else if path = ''/media/large.png'' then Inr (800, 400)
        else if path = ''/media/large.gif'' then Inr (800, 400)
        else Inl (ErrorString ''image: unknown format'')),
     Bounds_Max = (\<lambda>img. img),
     float32_ratio_eq = (\<lambda>srcHeight srcWidth width height.
        srcWidth \<noteq> 0 \<and> height \<noteq> 0 \<and> srcHeight * height = width * srcWidth),
     imaging_Fit = (\<lambda>img width height. (min (fst img) width, min (snd img) height)),
     imaging_Fill = (\<lambda>img width height. (width, height)),
     os_Open = (\<lambda>fs path. None),
     gif_DecodeAll = (\<lambda>fs path. Inr [(800, 400), (800, 400)]),
     gif_Image = (\<lambda>g. g),
     gif_with_Image = (\<lambda>g frames. frames),
     NewPaletted_Draw = (\<lambda>frame frameThumb. frameThumb),
     gif_EncodeAll = (\<lambda>g. Inr (replicate (length g) 71)),
     imaging_Encode = (\<lambda>img. Inr [137, 80, 78, 71]),
     PersistFile = (\<lambda>fs imgData. (Inr ''/thumbs/new'', (''/thumbs/new'', imgData) # fs)),
     FileSize = (\<lambda>fs path.
        case map_of fs path of
          None \<Rightarrow> Inl (ErrorString ''stat: no such file'')
        | Some imgData \<Rightarrow> Inr (int (length imgData)))\<rparr>"

definition small_jpeg :: Media where
  "small_jpeg = \<lparr>Media.ContentType = ''image/jpeg'', Location = ''/media/small.jpg'', SizeBytes = 1234\<rparr>"

definition large_png :: Media where
  "large_png = \<lparr>Media.ContentType = ''image/png'', Location = ''/media/large.png'', SizeBytes = 5678\<rparr>"

definition missing_png :: Media where
  "missing_png = \<lparr>Media.ContentType = ''image/png'', Location = ''/media/gone.png'', SizeBytes = 5678\<rparr>"

section \<open>Resolver (GetServerApiUrl)\<close>

subsection \<open>Library functions\<close>

text \<open>\<open>strings.HasSuffix\<close>.\<close>

definition HasSuffix :: "string \<Rightarrow> string \<Rightarrow> bool" where
  "HasSuffix s suffix = (length suffix \<le> length s \<and> drop (length s - length suffix) s = suffix)"

text \<open>
  The index of the first and of the last occurrence of a byte in a string, as the net
  package's \<open>IndexByteString\<close> and \<open>last\<close>; \<open>None\<close> is Go's \<open>-1\<close>.
\<close>

fun IndexByteString :: "string \<Rightarrow> char \<Rightarrow> nat option" where
  "IndexByteString [] c = None"
| "IndexByteString (x # xs) c = (if x = c then Some 0 else map_option Suc (IndexByteString xs c))"

definition last_byte :: "string \<Rightarrow> char \<Rightarrow> nat option" where
  "last_byte s b =
    (case IndexByteString (rev s) b of None \<Rightarrow> None | Some j \<Rightarrow> Some (length s - 1 - j))"

definition missingPort :: string where
  "missingPort = ''missing port in address''"

definition tooManyColons :: string where
  "tooManyColons = ''too many colons in address''"

text \<open>
  \<open>net.SplitHostPort\<close>. The port starts after the last colon; a host in brackets ends
  at the first closing bracket, which must stand right before that colon; no other
  bracket may occur. \<open>SplitHostPort_rest\<close> is the end of the function, the two checks
  for stray brackets from the positions \<open>j\<close> and \<open>k\<close> on.
\<close>

definition SplitHostPort_rest ::
  "string \<Rightarrow> nat \<Rightarrow> nat \<Rightarrow> nat \<Rightarrow> string \<Rightarrow> error + string \<times> string" where
  "SplitHostPort_rest hostport i j k host =
    (if IndexByteString (drop j hostport) CHR ''['' \<noteq> None
       then Inl (AddrError (''unexpected '' @ [CHR 0x27, CHR ''['', CHR 0x27] @ '' in address'') hostport)
     else if IndexByteString (drop k hostport) CHR '']'' \<noteq> None
       then Inl (AddrError (''unexpected '' @ [CHR 0x27, CHR '']'', CHR 0x27] @ '' in address'') hostport)
     else Inr (host, drop (i + 1) hostport))"

definition SplitHostPort :: "string \<Rightarrow> error + string \<times> string" where
  "SplitHostPort hostport =
    (case last_byte hostport CHR '':'' of
      None \<Rightarrow> Inl (AddrError missingPort hostport)
    | Some i \<Rightarrow>
        if hostport ! 0 = CHR ''['' then
          (case IndexByteString hostport CHR '']'' of
            None \<Rightarrow>
              Inl (AddrError (''missing '' @ [CHR 0x27, CHR '']'', CHR 0x27] @ '' in address'') hostport)
          | Some end \<Rightarrow>
              if end + 1 = length hostport then Inl (AddrError missingPort hostport)
              else if end + 1 = i then
                SplitHostPort_rest hostport i 1 (end + 1) (take (end - 1) (drop 1 hostport))
              else if hostport ! (end + 1) = CHR '':'' then Inl (AddrError tooManyColons hostport)
              else Inl (AddrError missingPort hostport))
        else
          (let host = take i hostport in
            if IndexByteString host CHR '':'' \<noteq> None then Inl (AddrError tooManyColons hostport)
            else SplitHostPort_rest hostport i 0 0 host))"

text \<open>The verb \<open>%d\<close> of \<open>fmt.Sprintf\<close> on an unsigned number.\<close>

function decimal :: "nat \<Rightarrow> string" where
  "decimal n =
    (if n < 10 then [''0123456789'' ! n]
     else decimal (n div 10) @ [''0123456789'' ! (n mod 10)])"
  by pat_completeness auto
termination
  by (relation "measure id") auto

declare decimal.simps [simp del]

subsection \<open>The network, the clock and the cache\<close>

text \<open>
  \<open>http_Response\<close>: the status code and what \<open>ioutil.ReadAll\<close> gives for the body.
  \<open>SRV\<close>: \<open>net.SRV\<close>.
\<close>

record http_Response =
  StatusCode :: int
  Body :: "error + byte list"

record SRV =
  Target :: string
  Port :: "16 word"
  Priority :: "16 word"
  Weight :: "16 word"

text \<open>
  What one call of \<open>GetServerApiUrl\<close> meets outside itself.
  \<^item> \<open>is_IP\<close>: \<open>is.IP\<close> of the package alioygur/is.
  \<^item> \<open>http_Get\<close>: \<open>http.Get\<close>.
  \<^item> \<open>json_ServerAddr\<close>: \<open>json.Unmarshal\<close> into \<open>wellknownServerResponse\<close> (declared in
    another file), giving the error or the field \<open>ServerAddr\<close>.
  \<^item> \<open>LookupSRV\<close>: the records of \<open>net.LookupSRV\<close>; the source drops its error.
  \<^item> \<open>Now_Get\<close>, \<open>Now_Set\<close>: \<open>time.Now().UnixNano()\<close> as the cache reads it in \<open>Get\<close>
    at the start of the call and in \<open>Set\<close> at its end.
\<close>

record network =
  is_IP :: "string \<Rightarrow> bool"
  http_Get :: "string \<Rightarrow> error + http_Response"
  json_ServerAddr :: "byte list \<Rightarrow> error + string"
  LookupSRV :: "string \<Rightarrow> string \<Rightarrow> string \<Rightarrow> SRV list"
  Now_Get :: int
  Now_Set :: int

text \<open>
  The cache of the package patrickmn/go-cache as made by
  \<open>cache.New(1*time.Hour, 2*time.Hour)\<close>: every item carries the time in nanoseconds
  at which it expires, \<open>Get\<close> does not find an item past that time, and \<open>Set\<close> with
  \<open>cache.DefaultExpiration\<close> lets the item expire one hour after the call. The
  janitor that deletes expired items every two hours removes only items that \<open>Get\<close>
  no longer finds, so it is left out.
\<close>

type_synonym cache = "string \<rightharpoonup> string \<times> int"

definition DefaultExpiration :: int where
  "DefaultExpiration = 1 * 3600000000000"

definition cache_Get :: "cache \<Rightarrow> int \<Rightarrow> string \<Rightarrow> string option" where
  "cache_Get c now k =
    (case c k of
      None \<Rightarrow> None
    | Some (object, expiration) \<Rightarrow>
        if expiration > 0 \<and> now > expiration then None else Some object)"

definition cache_Set :: "cache \<Rightarrow> int \<Rightarrow> string \<Rightarrow> string \<Rightarrow> cache" where
  "cache_Set c now k x = c(k \<mapsto> (x, now + DefaultExpiration))"

subsection \<open>The discovery\<close>

text \<open>
  Lines 203 to 208, and again 242 to 247 for the delegated address: the address is
  split; when that fails with an error whose text ends in \<open>missing port in address\<close>,
  it is split again with \<open>:8448\<close> appended. The flag says that the default port was used.
\<close>

definition SplitHostPort_default :: "string \<Rightarrow> (error + string \<times> string) \<times> bool" where
  "SplitHostPort_default hostname =
    (case SplitHostPort hostname of
      Inr hp \<Rightarrow> (Inr hp, False)
    | Inl err \<Rightarrow>
        if HasSuffix (Error err) ''missing port in address''
        then (SplitHostPort (hostname @ '':8448''), True)
        else (Inl err, False))"

text \<open>
  Lines 271 to 277, and again 298 to 304: with no record there is no url; otherwise
  the url is made of the first record's target, one trailing dot cut off, and its
  port. The slice \<open>realAddr[len(realAddr)-1:]\<close> of an empty target panics.
\<close>

definition srv_url :: "SRV list \<Rightarrow> (error + string) option" where
  "srv_url addrs =
    (case addrs of
      [] \<Rightarrow> None
    | a # _ \<Rightarrow>
        (let realAddr = Target a in
          if realAddr = [] then Some (Inl (Panic ''runtime error: slice bounds out of range''))
          else
            Some (Inr (''https://''
              @ (if drop (length realAddr - 1) realAddr = ''.''
                 then take (length realAddr - 1) realAddr else realAddr)
              @ '':'' @ decimal (unat (Port a))))))"

text \<open>
  Lines 234 to 241: the delegated address of \<open>.well-known\<close>, when the request
  succeeds with status 200, the body can be read and parsed, and the address is not empty.
\<close>

definition wellknown :: "network \<Rightarrow> string \<Rightarrow> string option" where
  "wellknown env h =
    (case http_Get env (''https://'' @ h @ ''/.well-known/matrix/server'') of
      Inl err \<Rightarrow> None
    | Inr r \<Rightarrow>
        if StatusCode r = 200 then
          (case Body r of
            Inl err2 \<Rightarrow> None
          | Inr c \<Rightarrow>
              (case json_ServerAddr env c of
                Inl err3 \<Rightarrow> None
              | Inr ServerAddr \<Rightarrow> if ServerAddr \<noteq> [] then Some ServerAddr else None))
        else None)"

text \<open>
  Lines 242 to 289, the steps 3a to 3d on the delegated address: the url and the host
  to return, or \<open>None\<close> when the address cannot be split and step 4 goes on.
\<close>

definition delegated :: "network \<Rightarrow> string \<Rightarrow> (error + string \<times> string) option" where
  "delegated env ServerAddr =
    (case SplitHostPort_default ServerAddr of
      (Inl err4, wkDefPort) \<Rightarrow> None
    | (Inr (wkHost, wkPort), wkDefPort) \<Rightarrow>
        if is_IP env wkHost then Some (Inr (''https://'' @ wkHost @ '':'' @ wkPort, ServerAddr))
        else if \<not> wkDefPort then Some (Inr (''https://'' @ wkHost @ '':'' @ wkPort, wkHost))
        else
          (case srv_url (LookupSRV env ''matrix'' ''tcp'' wkHost) of
            Some (Inl e) \<Rightarrow> Some (Inl e)
          | Some (Inr url) \<Rightarrow> Some (Inr (url, wkHost))
          | None \<Rightarrow> Some (Inr (''https://'' @ wkHost @ '':'' @ wkPort, wkHost))))"

text \<open>
  Lines 203 to 315 without the writes to the cache: the url and the host that the
  first matching step returns.
\<close>

definition discover :: "network \<Rightarrow> string \<Rightarrow> error + string \<times> string" where
  "discover env hostname =
    (case SplitHostPort_default hostname of
      (Inl err, defPort) \<Rightarrow> Inl err
    | (Inr (h, p), defPort) \<Rightarrow>
        if is_IP env h then Inr (''https://'' @ h @ '':'' @ p, hostname)
        else if \<not> defPort then Inr (''https://'' @ h @ '':'' @ p, h)
        else
          (case (case wellknown env h of None \<Rightarrow> None | Some ServerAddr \<Rightarrow> delegated env ServerAddr) of
            Some res \<Rightarrow> res
          | None \<Rightarrow>
              (case srv_url (LookupSRV env ''matrix'' ''tcp'' hostname) of
                Some (Inl e) \<Rightarrow> Inl e
              | Some (Inr url) \<Rightarrow> Inr (url, h)
              | None \<Rightarrow> Inr (''https://'' @ h @ '':'' @ p, h))))"

text \<open>
  Lines 191 to 316. A hit of the cache returns the cached url with \<open>hostname\<close>
  (line 200). Every successful return of the discovery is preceded by
  \<open>apiUrlCacheInstance.Set(hostname, url, cache.DefaultExpiration)\<close>: the cache keeps
  the url alone. The result comes with the cache after the call.
\<close>

definition GetServerApiUrl :: "network \<Rightarrow> cache \<Rightarrow> string \<Rightarrow> (error + string \<times> string) \<times> cache" where
  "GetServerApiUrl env apiUrlCacheInstance hostname =
    (case cache_Get apiUrlCacheInstance (Now_Get env) hostname of
      Some url \<Rightarrow> (Inr (url, hostname), apiUrlCacheInstance)
    | None \<Rightarrow>
        (case discover env hostname of
          Inl err \<Rightarrow> (Inl err, apiUrlCacheInstance)
        | Inr (url, realHost) \<Rightarrow>
            (Inr (url, realHost), cache_Set apiUrlCacheInstance (Now_Set env) hostname url)))"

text \<open>The cache after a list of earlier calls, each with the network it met.\<close>

fun resolve_all :: "(network \<times> string) list \<Rightarrow> cache \<Rightarrow> cache" where
  "resolve_all [] c = c"
| "resolve_all ((env, hostname) # rest) c = resolve_all rest (snd (GetServerApiUrl env c hostname))"

text \<open>
  The host part of an address as lines 203 to 208 split it, and the host part of the
  address that \<open>.well-known\<close> delegates a hostname to.
\<close>

definition host_of :: "string \<Rightarrow> string option" where
  "host_of s = (case fst (SplitHostPort_default s) of Inl err \<Rightarrow> None | Inr (h, p) \<Rightarrow> Some h)"

definition delegated_host :: "network \<Rightarrow> string \<Rightarrow> string option" where
  "delegated_host env hostname =
    (case host_of hostname of
      None \<Rightarrow> None
    | Some h \<Rightarrow> (case wellknown env h of None \<Rightarrow> None | Some ServerAddr \<Rightarrow> host_of ServerAddr))"

definition https_cache :: "cache \<Rightarrow> bool" where
  "https_cache c = (\<forall>k v e. c k = Some (v, e) \<longrightarrow> take 8 v = ''https://'')"

subsection \<open>Three networks\<close>

text \<open>
  \<open>offline\<close>: no \<open>.well-known\<close> answers and no SRV record exists; the clock stands at
  one second when the cache is read and at two when it is written. \<open>delegating\<close>:
  \<open>delegated.test\<close> delegates to \<open>actual.test:443\<close>, and \<open>matrix.org\<close> has an SRV
  record. \<open>a_minute_later\<close>: the delegating network one minute on. In all of them a
  string of digits and dots counts as an IP address.
\<close>

definition dotted_digits :: "string \<Rightarrow> bool" where
  "dotted_digits s = (s \<noteq> [] \<and> list_all (\<lambda>c. c \<in> set ''0123456789.'') s)"

definition offline :: network where
  "offline =
    \<lparr>is_IP = dotted_digits,
     http_Get = (\<lambda>url. Inl (ErrorString ''dial tcp: no such host'')),
     json_ServerAddr = (\<lambda>c. Inl (ErrorString ''unexpected end of JSON input'')),
     LookupSRV = (\<lambda>service proto name. []),
     Now_Get = 1000000000,
     Now_Set = 2000000000\<rparr>"

definition delegating :: network where
  "delegating =
    offline\<lparr>http_Get := (\<lambda>url.
       if url = ''https://delegated.test/.well-known/matrix/server''
       then Inr \<lparr>StatusCode = 200, Body = Inr [1]\<rparr>
       else Inl (ErrorString ''dial tcp: no such host'')),
     json_ServerAddr := (\<lambda>c.
       if c = [1] then Inr ''actual.test:443'' else Inl (ErrorString ''invalid character'')),
     LookupSRV := (\<lambda>service proto name.
       if name = ''matrix.org''
       then [\<lparr>Target = ''matrix-federation.matrix.org.'', Port = 8448, Priority = 10, Weight = 5\<rparr>]
       else [])\<rparr>"

definition a_minute_later :: network where
  "a_minute_later = delegating\<lparr>Now_Get := 61000000000, Now_Set := 62000000000\<rparr>"

section \<open>Federated fetcher (FederatedGet)\<close>

record tls_Config =
  ServerName :: string
  InsecureSkipVerify :: bool

record Request =
  Method :: string
  URL :: string
  Header :: "string \<rightharpoonup> string list"
  Host :: string

text \<open>
  What \<open>FederatedGet\<close> meets outside itself. \<open>'conn\<close> is a raw connection, \<open>'resp\<close>
  an \<open>http.Response\<close>.
  \<^item> \<open>http_NewRequest\<close>: the error of \<open>http.NewRequest\<close>, if the url cannot be parsed.
  \<^item> \<open>dial_addr\<close>: the address \<open>host:port\<close> that the transport dials for a url.
  \<^item> \<open>Dial\<close>: \<open>dialer.Dial\<close> with the configured federation timeout.
  \<^item> \<open>Handshake rawconn n config\<close>: the outcome of \<open>tls.Client(rawconn, config).Handshake()\<close>
    for the handshake number \<open>n\<close> on that raw connection, counted from 0.
  \<^item> \<open>exchange\<close>: the request written to, and the response read from, a TLS connection,
    which is the raw connection with the configuration of its client.
\<close>

record ('conn, 'resp) peer =
  http_NewRequest :: "string \<Rightarrow> string \<Rightarrow> error option"
  dial_addr :: "string \<Rightarrow> string"
  Dial :: "string \<Rightarrow> string \<Rightarrow> error + 'conn"
  Handshake :: "'conn \<Rightarrow> nat \<Rightarrow> tls_Config \<Rightarrow> error option"
  exchange :: "'conn \<times> tls_Config \<Rightarrow> Request \<Rightarrow> error + 'resp"

text \<open>
  The function \<open>DialTLS\<close> of the transport, lines 323 to 350. The inner \<open>err\<close> of line
  344 shadows the one of line 337: when the second handshake fails its own error is
  returned (line 345), and when it succeeds line 347 returns \<open>nil\<close> with the error of
  the first handshake.
\<close>

definition DialTLS ::
  "('conn, 'resp) peer \<Rightarrow> string \<Rightarrow> string \<Rightarrow> string \<Rightarrow> error + 'conn \<times> tls_Config" where
  "DialTLS env realHost network addr =
    (case Dial env network addr of
      Inl err \<Rightarrow> Inl err
    | Inr rawconn \<Rightarrow>
        (case Handshake env rawconn 0 \<lparr>ServerName = realHost, InsecureSkipVerify = True\<rparr> of
          Some err \<Rightarrow>
            (case Handshake env rawconn 1 \<lparr>ServerName = [], InsecureSkipVerify = True\<rparr> of
              Some err' \<Rightarrow> Inl err'
            | None \<Rightarrow> Inl err)
        | None \<Rightarrow> Inr (rawconn, \<lparr>ServerName = realHost, InsecureSkipVerify = True\<rparr>)))"

text \<open>
  \<open>transport.RoundTrip\<close> as far as \<open>FederatedGet\<close> depends on it: for the https url of
  a federation request the transport gets its connection from \<open>DialTLS\<close>; a failed dial
  ends the round trip with the dial's error, otherwise request and response are
  exchanged over the connection.
\<close>

definition RoundTrip :: "('conn, 'resp) peer \<Rightarrow> string \<Rightarrow> Request \<Rightarrow> error + 'resp" where
  "RoundTrip env realHost req =
    (case DialTLS env realHost ''tcp'' (dial_addr env (URL req)) of
      Inl err \<Rightarrow> Inl err
    | Inr conn \<Rightarrow> exchange env conn req)"

text \<open>Lines 318 to 369.\<close>

definition FederatedGet :: "('conn, 'resp) peer \<Rightarrow> string \<Rightarrow> string \<Rightarrow> error + 'resp" where
  "FederatedGet env url realHost =
    (case http_NewRequest env ''GET'' url of
      Some err \<Rightarrow> Inl err
    | None \<Rightarrow>
        (let req = \<lparr>Method = ''GET'', URL = url,
                    Header = [''Host'' \<mapsto> [realHost], ''User-Agent'' \<mapsto> [''matrix-media-repo'']],
                    Host = realHost\<rparr>
         in
          case RoundTrip env realHost req of
            Inl err \<Rightarrow> Inl err
          | Inr resp \<Rightarrow> Inr resp))"

subsection \<open>Two peers\<close>

text \<open>
  \<open>default_cert_peer\<close> refuses every handshake that names a server and accepts one
  that names none; \<open>closed_peer\<close> refuses the first handshake and has closed the
  connection by the second.
\<close>

definition default_cert_peer :: "(string, string) peer" where
  "default_cert_peer =
    \<lparr>http_NewRequest = (\<lambda>method url. None),
     dial_addr = (\<lambda>url. ''peer.test:8448''),
     Dial = (\<lambda>network addr. Inr addr),
     Handshake = (\<lambda>rawconn attempt config.
        if ServerName config = [] then None
        else Some (ErrorString ''remote error: tls: unrecognized name'')),
     exchange = (\<lambda>conn req. Inr ''200 OK'')\<rparr>"

definition closed_peer :: "(string, string) peer" where
  "closed_peer =
    default_cert_peer\<lparr>Handshake := (\<lambda>rawconn attempt config.
        if attempt = 0 then Some (ErrorString ''remote error: tls: unrecognized name'')
        else Some (ErrorString ''EOF''))\<rparr>"

definition media_url :: string where
  "media_url = ''https://peer.test:8448/_matrix/media/v1/download/peer.test/abc''"

section \<open>Theorems on the datastore registry\<close>

lemma lookup_passes_through:
  assumes "GetDatastoreByUri mediaService s dsUri = (d, err)" and "err \<noteq> Some ErrNoRows"
  shows "GetOrCreateDatastoreOfType mediaService s r dsType dsUri = ((d, None), s, r)"
  using assms by (simp add: GetOrCreateDatastoreOfType_def)




text \<open>
  The sibling \<open>getOrCreateDatastoreWithMediaService\<close> does return a lookup error
  other than \<open>sql.ErrNoRows\<close> to its caller, with no record.
\<close>

theorem sibling_surfaces_lookup_error:
  assumes "GetDatastoreByUri mediaService s basePath = (d, Some e)" and "e \<noteq> ErrNoRows"
  shows "getOrCreateDatastoreWithMediaService mediaService s r basePath = ((None, Some e), s, r)"
  using assms by (simp add: getOrCreateDatastoreWithMediaService_def)

theorem sibling_surfaces_lookup_error_witness:
  "getOrCreateDatastoreWithMediaService broken_store () () ''/tmp/a''
     = ((None, Some (ErrorString ''connection refused'')), (), ())"
  using sibling_surfaces_lookup_error [of broken_store "()" "''/tmp/a''" None
      "ErrorString ''connection refused''" "()"]
  by (simp add: broken_store_def)

text \<open>
  Against C3 as stated: in the racing store the lookup misses and the insert is
  refused as a uniqueness violation. The call returns no record and that error,
  although a lookup on the store it leaves finds the rival's record.
\<close>

theorem unique_violation_surfaced:
  "GetOrCreateDatastoreOfType racing_store [] () ''file'' ''/tmp/a''
     = ((None, Some UniqueViolation), [rival ''/tmp/a''], ())
   \<and> GetDatastoreByUri racing_store [rival ''/tmp/a''] ''/tmp/a'' = (Some (rival ''/tmp/a''), None)"
  by (simp add: GetOrCreateDatastoreOfType_def racing_store_def rival_def)

text \<open>
  C3, amended: when the lookup misses and the insert that follows fails, with a
  uniqueness violation or any other error, \<open>GetOrCreateDatastoreOfType\<close> returns no
  record and the error of the insert; it does not read the record again.
\<close>

theorem insert_error_surfaced:
  assumes "GetDatastoreByUri mediaService s dsUri = (d, Some ErrNoRows)"
    and "GenerateRandomString mediaService r 32 = (Inr ident, r')"
    and "InsertDatastore mediaService s \<lparr>DatastoreId = ident, Type = dsType, Uri = dsUri\<rparr> = (Some e, s')"
  shows "GetOrCreateDatastoreOfType mediaService s r dsType dsUri = ((None, Some e), s', r')"
  using assms by (simp add: GetOrCreateDatastoreOfType_def)

theorem insert_error_surfaced_witness:
  "fst (GetOrCreateDatastoreOfType racing_store [] () ''file'' ''/tmp/a'') = (None, Some UniqueViolation)"
  using insert_error_surfaced [where mediaService = racing_store and s = "[]" and dsUri = "''/tmp/a''"
      and d = None and r = "()" and ident = "replicate 32 CHR ''a''" and r' = "()"
      and dsType = "''file''" and e = UniqueViolation and s' = "[rival ''/tmp/a'']"]
  by (simp add: racing_store_def)

lemma fresh_id_length: "32 \<le> length rnd \<Longrightarrow> length (fresh_id rnd) = 32"
  by (simp add: fresh_id_def)

lemma alphabet_length: "length alphabet = 62"
  by (simp add: alphabet_def)

lemma fresh_id_alphabet: "set (fresh_id rnd) \<subseteq> set alphabet"
proof -
  have "alphabet ! (b mod 62) \<in> set alphabet" for b
    by (rule nth_mem) (simp add: alphabet_length)
  then show ?thesis by (auto simp: fresh_id_def)
qed

lemma first_call_creates:
  assumes "find (\<lambda>d. Uri d = dsUri) t = None" and "32 \<le> length rnd"
  shows "GetOrCreateDatastoreOfType table_store t rnd dsType dsUri =
    ((Some \<lparr>DatastoreId = fresh_id rnd, Type = dsType, Uri = dsUri\<rparr>, None),
     t @ [\<lparr>DatastoreId = fresh_id rnd, Type = dsType, Uri = dsUri\<rparr>], drop 32 rnd)"
  using assms
  by (simp add: GetOrCreateDatastoreOfType_def table_store_def table_GetDatastoreByUri_def
      table_InsertDatastore_def random_GenerateRandomString_def fresh_id_def Let_def)

lemma later_call_finds:
  assumes "find (\<lambda>d. Uri d = dsUri) t = Some d"
  shows "GetOrCreateDatastoreOfType table_store t rnd dsType dsUri = ((Some d, None), t, rnd)"
  using assms
  by (simp add: GetOrCreateDatastoreOfType_def table_store_def table_GetDatastoreByUri_def)

lemma later_calls_find:
  assumes "find (\<lambda>d. Uri d = dsUri) t = Some d"
  shows "sequential_calls n t rnd dsType dsUri = (replicate n (Some d, None), t, rnd)"
  using assms by (induction n) (simp_all add: later_call_finds)

lemma find_after_insert:
  assumes "find (\<lambda>d. Uri d = dsUri) t = None"
  shows "find (\<lambda>d. Uri d = dsUri) (t @ [\<lparr>DatastoreId = i, Type = ty, Uri = dsUri\<rparr>])
    = Some \<lparr>DatastoreId = i, Type = ty, Uri = dsUri\<rparr>"
  using assms by (induction t) (auto split: if_splits)

text \<open>
  C7: on a table that holds no record for the uri, with a random source that can
  give 32 characters, the first call of \<open>GetOrCreateDatastoreOfType\<close> creates a
  record: it draws a new identifier of 32 characters over the alphabet from the
  source, appends the record with that identifier, the type and the uri to the table,
  and returns it. Every later call for the same type and uri, whatever the random
  source then holds, finds that record in the table, returns it with the same
  \<open>DatastoreId\<close>, and leaves the table and the source as they are. So any number of
  calls one after the other all return the one record, and end with the table
  holding that one record more and the source 32 numbers shorter.
\<close>

theorem repeated_calls_idempotent:
  assumes "find (\<lambda>d. Uri d = dsUri) t = None" and "32 \<le> length rnd"
  shows "GetOrCreateDatastoreOfType table_store t rnd dsType dsUri =
      ((Some \<lparr>DatastoreId = fresh_id rnd, Type = dsType, Uri = dsUri\<rparr>, None),
       t @ [\<lparr>DatastoreId = fresh_id rnd, Type = dsType, Uri = dsUri\<rparr>], drop 32 rnd)
    \<and> GetOrCreateDatastoreOfType table_store
        (t @ [\<lparr>DatastoreId = fresh_id rnd, Type = dsType, Uri = dsUri\<rparr>]) rnd' dsType dsUri =
      ((Some \<lparr>DatastoreId = fresh_id rnd, Type = dsType, Uri = dsUri\<rparr>, None),
       t @ [\<lparr>DatastoreId = fresh_id rnd, Type = dsType, Uri = dsUri\<rparr>], rnd')
    \<and> sequential_calls (Suc n) t rnd dsType dsUri =
      (replicate (Suc n) (Some \<lparr>DatastoreId = fresh_id rnd, Type = dsType, Uri = dsUri\<rparr>, None),
       t @ [\<lparr>DatastoreId = fresh_id rnd, Type = dsType, Uri = dsUri\<rparr>], drop 32 rnd)
    \<and> length (fresh_id rnd) = 32 \<and> set (fresh_id rnd) \<subseteq> set alphabet"
proof -
  let ?d = "\<lparr>DatastoreId = fresh_id rnd, Type = dsType, Uri = dsUri\<rparr>"
  have first: "GetOrCreateDatastoreOfType table_store t rnd dsType dsUri
      = ((Some ?d, None), t @ [?d], drop 32 rnd)"
    using assms by (rule first_call_creates)
  have found: "find (\<lambda>d. Uri d = dsUri) (t @ [?d]) = Some ?d"
    using assms(1) by (rule find_after_insert)
  have later: "GetOrCreateDatastoreOfType table_store (t @ [?d]) rnd' dsType dsUri
      = ((Some ?d, None), t @ [?d], rnd')"
    using found by (rule later_call_finds)
  have rest: "sequential_calls n (t @ [?d]) (drop 32 rnd) dsType dsUri
      = (replicate n (Some ?d, None), t @ [?d], drop 32 rnd)"
    using found by (rule later_calls_find)
  have all: "sequential_calls (Suc n) t rnd dsType dsUri
      = (replicate (Suc n) (Some ?d, None), t @ [?d], drop 32 rnd)"
    by (simp add: first rest)
  show ?thesis
    using first later all assms(2) by (simp add: fresh_id_length fresh_id_alphabet)
qed

theorem repeated_calls_idempotent_witness:
  "sequential_calls 3 [] [0 ..< 40] ''file'' ''/tmp/a'' =
     (replicate 3
        (Some \<lparr>DatastoreId = ''ABCDEFGHIJKLMNOPQRSTUVWXYZabcdef'', Type = ''file'', Uri = ''/tmp/a''\<rparr>, None),
      [\<lparr>DatastoreId = ''ABCDEFGHIJKLMNOPQRSTUVWXYZabcdef'', Type = ''file'', Uri = ''/tmp/a''\<rparr>],
      [32, 33, 34, 35, 36, 37, 38, 39])"
proof -
  have ident: "fresh_id [0 ..< 40] = ''ABCDEFGHIJKLMNOPQRSTUVWXYZabcdef''"
    by code_simp
  have left: "drop 32 [0 ..< 40] = [32, 33, 34, 35, 36, 37, 38, 39 :: nat]"
    by code_simp
  have missing: "find (\<lambda>d. Uri d = ''/tmp/a'') [] = None"
    by simp
  have enough: "32 \<le> length [0 ..< (40 :: nat)]"
    by simp
  from repeated_calls_idempotent [OF missing enough, where n = 2 and dsType = "''file''"] ident left
  show ?thesis by (simp add: numeral_3_eq_3)
qed

section \<open>Theorems on the thumbnailer\<close>

text \<open>
  C10: when the media's file cannot be opened or decoded as an image,
  \<open>GenerateThumbnail\<close> returns that error, whatever the width, the height and the
  force flag are, and leaves the file system as it was: the pass-through is reached
  only after the source has been decoded.
\<close>

theorem undecodable_media_is_error:
  assumes "imaging_Open env fs (Location media) = Inl e"
  shows "GenerateThumbnail env fs media width height method animated forceGeneration = (Inl e, fs)"
  using assms by (simp add: GenerateThumbnail_def)

theorem undecodable_media_is_error_witness:
  "GenerateThumbnail studio [] missing_png 4000 4000 ''scale'' False False
     = (Inl (ErrorString ''image: unknown format''), [])"
  using undecodable_media_is_error [of studio "[]" missing_png "ErrorString ''image: unknown format''"
      4000 4000 "''scale''" False False]
  by (simp add: studio_def missing_png_def)

text \<open>
  C6: when the source can be decoded and its width and height do not exceed the
  asked width and height, and the force flag is off, \<open>GenerateThumbnail\<close> returns a
  pass-through thumbnail: location, content type and size are the media's, and the
  file system is as it was before the call (nothing is persisted).
\<close>

theorem small_source_passes_through:
  assumes "imaging_Open env fs (Location media) = Inr src"
    and "Bounds_Max env src = (sw, sh)" and "sw \<le> width" and "sh \<le> height"
  shows "GenerateThumbnail env fs media width height method animated False =
    (Inr \<lparr>ContentType = Media.ContentType media, DiskLocation = Location media,
          SizeBytes = Media.SizeBytes media,
          Animated = (animated \<and> ArrayContains (animatedTypes env) (Media.ContentType media))\<rparr>, fs)"
  using assms by (auto simp add: GenerateThumbnail_def Let_def)

theorem small_source_passes_through_witness:
  "GenerateThumbnail studio [] small_jpeg 400 400 ''scale'' False False =
    (Inr \<lparr>ContentType = ''image/jpeg'', DiskLocation = ''/media/small.jpg'',
          SizeBytes = 1234, Animated = False\<rparr>, [])"
  using small_source_passes_through [of studio "[]" small_jpeg "(200, 100)" 200 100 400 400
      "''scale''" False]
  by (simp add: studio_def small_jpeg_def)

lemma store_thumbnail_fields:
  assumes "store_thumbnail env fs thumb contentType imgData = (Inr t, fs')"
  shows "generatedThumbnail.ContentType t = contentType \<and> Animated t = Animated thumb"
  using assms by (auto simp: store_thumbnail_def split: prod.splits sum.splits)

lemma animated_thumbnail_type:
  "animated_thumbnail env fs media method width height = Inr (contentType, imgData)
    \<Longrightarrow> contentType = ''image/gif''"
  by (auto simp: animated_thumbnail_def split: option.splits sum.splits)

lemma still_thumbnail_type:
  "still_thumbnail env src method width height = Inr (contentType, imgData)
    \<Longrightarrow> contentType = ''image/png''"
  by (auto simp: still_thumbnail_def split: option.splits sum.splits)

text \<open>
  Against C4 as stated: the thumbnail of a small JPEG, asked for as a still, is the
  pass-through record, whose content type is the media's \<open>image/jpeg\<close> and not
  \<open>image/png\<close>.
\<close>

theorem pass_through_keeps_jpeg:
  "GenerateThumbnail studio [] small_jpeg 400 400 ''crop'' False False =
    (Inr \<lparr>ContentType = ''image/jpeg'', DiskLocation = ''/media/small.jpg'',
          SizeBytes = 1234, Animated = False\<rparr>, [])
   \<and> ''image/jpeg'' \<noteq> ''image/png''"
  by (simp add: GenerateThumbnail_def studio_def small_jpeg_def ArrayContains_def)

text \<open>
  C4, amended: the animated flag of every record that \<open>GenerateThumbnail\<close> returns
  is the asked flag, reset to false when the media's content type is not an animated
  type. A record made on the pass-through path carries the media's content type
  unchanged; every other record has the content type \<open>image/gif\<close> if its animated flag
  is set and \<open>image/png\<close> otherwise, for every width, height and method.
\<close>

theorem content_type_of_thumbnail:
  assumes "GenerateThumbnail env fs media width height method animated forceGeneration = (Inr thumb, fs')"
    and "imaging_Open env fs (Location media) = Inr src"
    and "Bounds_Max env src = (sw, sh)"
  shows "Animated thumb = (animated \<and> ArrayContains (animatedTypes env) (Media.ContentType media))
    \<and> generatedThumbnail.ContentType thumb =
      (if sw \<le> width \<and> sh \<le> height \<and> \<not> forceGeneration then Media.ContentType media
       else if Animated thumb then ''image/gif'' else ''image/png'')"
  using assms
  by (auto simp: GenerateThumbnail_def Let_def split: if_splits sum.splits prod.splits
      dest!: store_thumbnail_fields animated_thumbnail_type still_thumbnail_type)

theorem content_type_of_thumbnail_witness:
  "GenerateThumbnail studio [] large_png 400 400 ''scale'' True False =
     (Inr \<lparr>ContentType = ''image/png'', DiskLocation = ''/thumbs/new'', SizeBytes = 4, Animated = False\<rparr>,
      [(''/thumbs/new'', [137, 80, 78, 71])])
   \<and> imaging_Open studio [] (Location large_png) = Inr (800, 400)
   \<and> Bounds_Max studio (800, 400) = (800, 400)"
proof -
  have run: "GenerateThumbnail studio [] large_png 400 400 ''scale'' True False =
     (Inr \<lparr>ContentType = ''image/png'', DiskLocation = ''/thumbs/new'', SizeBytes = 4, Animated = False\<rparr>,
      [(''/thumbs/new'', [137, 80, 78, 71])])"
    by (simp add: GenerateThumbnail_def studio_def large_png_def ArrayContains_def
        still_thumbnail_def thumbnailFrame_def store_thumbnail_def)
  have opened: "imaging_Open studio [] (Location large_png) = Inr (800, 400)"
    by (simp add: studio_def large_png_def)
  have bounds: "Bounds_Max studio (800, 400) = (800, 400)"
    by (simp add: studio_def)
  from content_type_of_thumbnail [OF run opened bounds] run opened bounds
  show ?thesis by simp
qed

text \<open>
  A method other than \<open>scale\<close> and \<open>crop\<close> makes a still thumbnail fail with the
  error \<open>unrecognized method\<close>, unless the call ends as a pass-through or the aspect
  ratios are found equal (which sets the method to \<open>scale\<close>); nothing is persisted.
\<close>

theorem unrecognized_method_fails:
  assumes "imaging_Open env fs (Location media) = Inr src"
    and "Bounds_Max env src = (sw, sh)"
    and "\<not> (sw \<le> width \<and> sh \<le> height \<and> \<not> forceGeneration)"
    and "\<not> float32_ratio_eq env sh sw width height"
    and "m \<noteq> ''scale''" and "m \<noteq> ''crop''"
    and "\<not> (animated \<and> ArrayContains (animatedTypes env) (Media.ContentType media))"
  shows "GenerateThumbnail env fs media width height m animated forceGeneration
    = (Inl (ErrorString (''unrecognized method: '' @ m)), fs)"
proof -
  have still: "still_thumbnail env src m w h = Inl (ErrorString (''unrecognized method: '' @ m))" for w h
    using assms(5,6) by (simp add: still_thumbnail_def thumbnailFrame_def)
  show ?thesis
    using assms(1-4,7) by (simp add: GenerateThumbnail_def Let_def still)
qed

theorem unrecognized_method_fails_witness:
  "GenerateThumbnail studio [] large_png 400 400 ''fit'' False False
     = (Inl (ErrorString ''unrecognized method: fit''), [])"
  using unrecognized_method_fails [of studio "[]" large_png "(800, 400)" 800 400 400 400 False "''fit''" False]
  by (simp add: studio_def large_png_def)

section \<open>Theorems on the resolver\<close>

text \<open>
  C8: when \<open>GetServerApiUrl\<close> hits the cache, it returns the cached url and, as the
  host, the very hostname it was called with, and leaves the cache as it was.
  Since the cache holds the url alone, this is so whatever host the call that
  filled the cache returned.
\<close>

theorem cache_hit_returns_input_hostname:
  assumes "cache_Get apiUrlCacheInstance (Now_Get env) hostname = Some url"
  shows "GetServerApiUrl env apiUrlCacheInstance hostname = (Inr (url, hostname), apiUrlCacheInstance)"
  using assms by (simp add: GetServerApiUrl_def)

lemma first_delegated:
  "fst (GetServerApiUrl delegating Map.empty ''delegated.test'')
     = Inr (''https://actual.test:443'', ''actual.test'')"
  by code_simp

lemma first_delegated_cached:
  "cache_Get (snd (GetServerApiUrl delegating Map.empty ''delegated.test'')) (Now_Get a_minute_later)
     ''delegated.test'' = Some ''https://actual.test:443''"
  by code_simp

theorem cache_hit_returns_input_hostname_witness:
  "fst (GetServerApiUrl delegating Map.empty ''delegated.test'')
     = Inr (''https://actual.test:443'', ''actual.test'')
   \<and> fst (GetServerApiUrl a_minute_later (snd (GetServerApiUrl delegating Map.empty ''delegated.test''))
        ''delegated.test'')
     = Inr (''https://actual.test:443'', ''delegated.test'')"
  using cache_hit_returns_input_hostname [OF first_delegated_cached] first_delegated
  by simp

text \<open>
  C2, on the code: the hostname \<open>example.com:8449\<close> is resolved twice, one minute
  apart and so within the hour an entry lives. The first call fills the cache and
  returns the host \<open>example.com\<close>; the second hits the cache and returns the same
  url with the host \<open>example.com:8449\<close>. The two results are not identical.
\<close>

theorem cached_call_changes_host:
  "fst (GetServerApiUrl delegating Map.empty ''example.com:8449'')
     = Inr (''https://example.com:8449'', ''example.com'')
   \<and> fst (GetServerApiUrl a_minute_later (snd (GetServerApiUrl delegating Map.empty ''example.com:8449''))
        ''example.com:8449'')
     = Inr (''https://example.com:8449'', ''example.com:8449'')
   \<and> Now_Get a_minute_later \<le> Now_Set delegating + DefaultExpiration"
  by code_simp

lemma srv_url_https: "srv_url addrs = Some (Inr url) \<Longrightarrow> take 8 url = ''https://''"
  by (auto simp: srv_url_def Let_def split: list.splits if_splits)

lemma delegated_https: "delegated env a = Some (Inr (url, sni)) \<Longrightarrow> take 8 url = ''https://''"
  by (auto simp: delegated_def split: prod.splits sum.splits if_splits option.splits dest: srv_url_https)

lemma discover_https: "discover env hostname = Inr (url, sni) \<Longrightarrow> take 8 url = ''https://''"
  by (auto simp: discover_def split: prod.splits sum.splits if_splits option.splits
      dest: srv_url_https delegated_https)

lemma wellknown_nonempty: "wellknown env h = Some a \<Longrightarrow> a \<noteq> []"
  by (auto simp: wellknown_def split: sum.splits if_splits)

lemma delegated_sni:
  "delegated env a = Some (Inr (url, sni)) \<Longrightarrow> a \<noteq> [] \<Longrightarrow> host_of a \<noteq> Some [] \<Longrightarrow> sni \<noteq> []"
  by (auto simp: delegated_def host_of_def split: prod.splits sum.splits if_splits option.splits)

lemma host_of_empty: "host_of [] = Some []"
  by code_simp

lemma discover_sni:
  assumes "discover env hostname = Inr (url, sni)"
    and "host_of hostname \<noteq> Some []" and "delegated_host env hostname \<noteq> Some []"
  shows "sni \<noteq> []"
proof -
  have ne: "hostname \<noteq> []" using assms(2) host_of_empty by auto
  obtain h p defPort where split: "SplitHostPort_default hostname = (Inr (h, p), defPort)"
    using assms(1) by (auto simp: discover_def split: prod.splits sum.splits)
  then have h: "host_of hostname = Some h" by (simp add: host_of_def)
  with assms(2) have hne: "h \<noteq> []" by simp
  show ?thesis
  proof (cases "wellknown env h")
    case None
    with assms(1) split hne ne show ?thesis
      by (auto simp: discover_def split: if_splits option.splits sum.splits)
  next
    case (Some a)
    then have "a \<noteq> []" by (rule wellknown_nonempty)
    moreover have "host_of a \<noteq> Some []"
      using assms(3) h Some by (simp add: delegated_host_def)
    ultimately have "delegated env a = Some (Inr (u, s)) \<Longrightarrow> s \<noteq> []" for u s
      by (rule delegated_sni [rotated])
    with assms(1) split hne ne Some show ?thesis
      by (auto simp: discover_def split: if_splits option.splits sum.splits)
  qed
qed

lemma https_cache_empty: "https_cache Map.empty"
  by (simp add: https_cache_def)

lemma https_cache_step: "https_cache c \<Longrightarrow> https_cache (snd (GetServerApiUrl env c hostname))"
  by (auto simp: GetServerApiUrl_def cache_Set_def https_cache_def
      split: option.splits sum.splits dest: discover_https)

lemma https_cache_resolve_all: "https_cache c \<Longrightarrow> https_cache (resolve_all earlier c)"
  by (induction earlier c rule: resolve_all.induct) (simp_all add: https_cache_step)

lemma cache_Get_https: "https_cache c \<Longrightarrow> cache_Get c now k = Some url \<Longrightarrow> take 8 url = ''https://''"
  unfolding cache_Get_def https_cache_def
  by (auto split: option.splits prod.splits if_splits)

text \<open>
  Against C5 as stated: for the hostname that is only a port, and for the empty
  hostname, \<open>GetServerApiUrl\<close> returns without error, and the host it returns is the
  empty string.
\<close>

theorem port_only_gives_empty_host:
  "fst (GetServerApiUrl offline Map.empty '':8448'') = Inr (''https://:8448'', [])
   \<and> fst (GetServerApiUrl offline Map.empty []) = Inr (''https://:8448'', [])"
  by code_simp

lemma split_port_only: "SplitHostPort_default '':8448'' = (Inr ([], ''8448''), False)"
  by code_simp

lemma split_empty: "SplitHostPort_default [] = (Inr ([], ''8448''), True)"
  by code_simp

lemma discover_port_only:
  "\<not> is_IP env [] \<Longrightarrow> discover env '':8448'' = Inr (''https://:8448'', [])"
  by (simp add: discover_def split_port_only)

lemma discover_empty:
  assumes "\<not> is_IP env []" and "wellknown env [] = None" and "discover env [] = Inr (url, sni)"
  shows "sni = []"
  using assms by (auto simp: discover_def split_empty split: option.splits sum.splits)

text \<open>
  C5, amended: after any earlier calls on a cache that started empty, whenever
  \<open>GetServerApiUrl\<close> returns without error the url begins with \<open>https://\<close>. The
  host it returns is not empty provided that the host part of the hostname is not
  empty and, where \<open>.well-known\<close> delegates, the host part of the delegated address
  is not empty either. On a hit of the cache the host returned is the hostname
  itself. On a miss the host returned is empty for the hostname \<open>:8448\<close> when the
  empty string is no IP address, and for the empty hostname when moreover
  \<open>.well-known\<close> does not delegate.
\<close>

theorem resolved_url_https_and_host:
  assumes "fst (GetServerApiUrl env (resolve_all earlier Map.empty) hostname) = Inr (url, sni)"
  shows "take 8 url = ''https://''
    \<and> (host_of hostname \<noteq> Some [] \<and> delegated_host env hostname \<noteq> Some [] \<longrightarrow> sni \<noteq> [])
    \<and> (cache_Get (resolve_all earlier Map.empty) (Now_Get env) hostname \<noteq> None \<longrightarrow> sni = hostname)
    \<and> (cache_Get (resolve_all earlier Map.empty) (Now_Get env) hostname = None
         \<and> hostname = '':8448'' \<and> \<not> is_IP env [] \<longrightarrow> sni = [])
    \<and> (cache_Get (resolve_all earlier Map.empty) (Now_Get env) hostname = None
         \<and> hostname = [] \<and> \<not> is_IP env [] \<and> wellknown env [] = None \<longrightarrow> sni = [])"
proof -
  let ?c = "resolve_all earlier Map.empty"
  have inv: "https_cache ?c"
    by (rule https_cache_resolve_all) (rule https_cache_empty)
  show ?thesis
  proof (cases "cache_Get ?c (Now_Get env) hostname")
    case (Some u)
    with assms have "url = u" and "sni = hostname"
      by (simp_all add: GetServerApiUrl_def)
    moreover have "take 8 u = ''https://''"
      using inv Some by (rule cache_Get_https)
    moreover have "host_of hostname \<noteq> Some [] \<Longrightarrow> hostname \<noteq> []"
      using host_of_empty by auto
    ultimately show ?thesis using Some by simp
  next
    case None
    with assms have d: "discover env hostname = Inr (url, sni)"
      by (auto simp: GetServerApiUrl_def split: sum.splits)
    have "take 8 url = ''https://''"
      using d by (rule discover_https)
    moreover have "host_of hostname \<noteq> Some [] \<and> delegated_host env hostname \<noteq> Some [] \<longrightarrow> sni \<noteq> []"
      using d discover_sni by blast
    moreover have "hostname = '':8448'' \<and> \<not> is_IP env [] \<longrightarrow> sni = []"
      using d discover_port_only by auto
    moreover have "hostname = [] \<and> \<not> is_IP env [] \<and> wellknown env [] = None \<longrightarrow> sni = []"
      using d discover_empty by blast
    ultimately show ?thesis using None by simp
  qed
qed

theorem resolved_url_https_and_host_witness:
  "fst (GetServerApiUrl a_minute_later (resolve_all [(delegating, ''example.com:8449'')] Map.empty)
      ''delegated.test'') = Inr (''https://actual.test:443'', ''actual.test'')
   \<and> host_of ''delegated.test'' = Some ''delegated.test''
   \<and> delegated_host a_minute_later ''delegated.test'' = Some ''actual.test''
   \<and> take 8 ''https://actual.test:443'' = ''https://''
   \<and> ''actual.test'' \<noteq> []
   \<and> fst (GetServerApiUrl a_minute_later (resolve_all [(delegating, ''example.com:8449'')] Map.empty)
      ''example.com:8449'') = Inr (''https://example.com:8449'', ''example.com:8449'')
   \<and> fst (GetServerApiUrl a_minute_later (resolve_all [(delegating, ''example.com:8449'')] Map.empty)
      '':8448'') = Inr (''https://:8448'', [])
   \<and> fst (GetServerApiUrl a_minute_later (resolve_all [(delegating, ''example.com:8449'')] Map.empty)
      []) = Inr (''https://:8448'', [])"
proof -
  let ?c = "resolve_all [(delegating, ''example.com:8449'')] Map.empty"
  have run: "fst (GetServerApiUrl a_minute_later ?c ''delegated.test'')
      = Inr (''https://actual.test:443'', ''actual.test'')"
    by code_simp
  have host: "host_of ''delegated.test'' = Some ''delegated.test''"
    by code_simp
  have wk: "delegated_host a_minute_later ''delegated.test'' = Some ''actual.test''"
    by code_simp
  have hit: "fst (GetServerApiUrl a_minute_later ?c ''example.com:8449'')
      = Inr (''https://example.com:8449'', ''example.com:8449'')"
    by code_simp
  have is_hit: "cache_Get ?c (Now_Get a_minute_later) ''example.com:8449'' \<noteq> None"
    by code_simp
  have port: "fst (GetServerApiUrl a_minute_later ?c '':8448'') = Inr (''https://:8448'', [])"
    by code_simp
  have port_miss: "cache_Get ?c (Now_Get a_minute_later) '':8448'' = None"
    by code_simp
  have empty: "fst (GetServerApiUrl a_minute_later ?c []) = Inr (''https://:8448'', [])"
    by code_simp
  have empty_miss: "cache_Get ?c (Now_Get a_minute_later) [] = None"
    by code_simp
  have no_ip: "\<not> is_IP a_minute_later []"
    by code_simp
  have no_wk: "wellknown a_minute_later [] = None"
    by code_simp
  from resolved_url_https_and_host [OF run] resolved_url_https_and_host [OF hit]
    resolved_url_https_and_host [OF port] resolved_url_https_and_host [OF empty]
    run host wk hit is_hit port port_miss empty empty_miss no_ip no_wk
  show ?thesis by simp
qed

subsection \<open>Further properties of the resolver\<close>

lemma decimal_8448: "decimal 8448 = ''8448''"
  by (simp add: decimal.simps)

lemma split_matrix_org: "SplitHostPort_default ''matrix.org'' = (Inr (''matrix.org'', ''8448''), True)"
  by code_simp

lemma srv_matrix_org:
  "srv_url (LookupSRV delegating ''matrix'' ''tcp'' ''matrix.org'')
    = Some (Inr ''https://matrix-federation.matrix.org:8448'')"
  by (simp add: srv_url_def delegating_def offline_def decimal_8448)

lemma wellknown_matrix_org: "wellknown delegating ''matrix.org'' = None"
  by (simp add: delegating_def offline_def wellknown_def)

lemma not_ip_matrix_org: "\<not> is_IP delegating ''matrix.org''"
  by (simp add: delegating_def offline_def dotted_digits_def)

lemma discover_matrix_org:
  "discover delegating ''matrix.org'' = Inr (''https://matrix-federation.matrix.org:8448'', ''matrix.org'')"
  by (simp add: discover_def split_matrix_org srv_matrix_org wellknown_matrix_org not_ip_matrix_org)

lemma empty_cache_misses: "cache_Get Map.empty now k = None"
  by (simp add: cache_Get_def)

lemma first_matrix_org:
  "fst (GetServerApiUrl delegating Map.empty ''matrix.org'')
     = Inr (''https://matrix-federation.matrix.org:8448'', ''matrix.org'')"
  by (simp add: GetServerApiUrl_def empty_cache_misses discover_matrix_org)

text \<open>
  When a call misses the cache and returns without error, a second call for the same
  hostname within the hour the entry lives hits the cache: it returns the same url,
  with the hostname as the host, and leaves the cache as it is.
\<close>

theorem second_call_same_url:
  assumes "cache_Get c (Now_Get env) hostname = None"
    and "GetServerApiUrl env c hostname = (Inr (url, sni), c')"
    and "Now_Get env' \<le> Now_Set env + DefaultExpiration"
  shows "GetServerApiUrl env' c' hostname = (Inr (url, hostname), c')"
proof -
  from assms(1,2) have "c' = cache_Set c (Now_Set env) hostname url"
    by (auto simp: GetServerApiUrl_def split: sum.splits)
  with assms(3) have "cache_Get c' (Now_Get env') hostname = Some url"
    by (simp add: cache_Get_def cache_Set_def)
  then show ?thesis by (simp add: GetServerApiUrl_def)
qed

theorem second_call_same_url_witness:
  "fst (GetServerApiUrl delegating Map.empty ''matrix.org'')
     = Inr (''https://matrix-federation.matrix.org:8448'', ''matrix.org'')
   \<and> fst (GetServerApiUrl a_minute_later (snd (GetServerApiUrl delegating Map.empty ''matrix.org''))
        ''matrix.org'')
     = Inr (''https://matrix-federation.matrix.org:8448'', ''matrix.org'')"
proof -
  have run: "GetServerApiUrl delegating Map.empty ''matrix.org''
      = (Inr (''https://matrix-federation.matrix.org:8448'', ''matrix.org''),
         snd (GetServerApiUrl delegating Map.empty ''matrix.org''))"
    using first_matrix_org by (simp add: prod_eq_iff)
  have soon: "Now_Get a_minute_later \<le> Now_Set delegating + DefaultExpiration"
    by code_simp
  from second_call_same_url [OF empty_cache_misses run soon] first_matrix_org
  show ?thesis by simp
qed

text \<open>
  The four resolutions that the specification lists as scenarios: an SRV record, an
  explicit port, an IP literal, and a delegation by \<open>.well-known\<close>.
\<close>

theorem resolver_scenarios:
  "fst (GetServerApiUrl delegating Map.empty ''matrix.org'')
     = Inr (''https://matrix-federation.matrix.org:8448'', ''matrix.org'')
   \<and> fst (GetServerApiUrl delegating Map.empty ''example.com:8449'')
     = Inr (''https://example.com:8449'', ''example.com'')
   \<and> fst (GetServerApiUrl delegating Map.empty ''1.2.3.4'')
     = Inr (''https://1.2.3.4:8448'', ''1.2.3.4'')
   \<and> fst (GetServerApiUrl delegating Map.empty ''delegated.test'')
     = Inr (''https://actual.test:443'', ''actual.test'')"
proof -
  have "fst (GetServerApiUrl delegating Map.empty ''example.com:8449'')
     = Inr (''https://example.com:8449'', ''example.com'')"
    by code_simp
  moreover have "fst (GetServerApiUrl delegating Map.empty ''1.2.3.4'')
     = Inr (''https://1.2.3.4:8448'', ''1.2.3.4'')"
    by code_simp
  moreover have "fst (GetServerApiUrl delegating Map.empty ''delegated.test'')
     = Inr (''https://actual.test:443'', ''actual.test'')"
    by code_simp
  ultimately show ?thesis using first_matrix_org by simp
qed

section \<open>Theorems on the federated fetcher\<close>

text \<open>
  C1, on the code: when the request can be made and the peer is reached, and the
  first handshake, with \<open>ServerName = realHost\<close>, fails with \<open>e1\<close>, one second
  handshake with the empty \<open>ServerName\<close> is made, and \<open>FederatedGet\<close> returns an
  error whatever its outcome \<open>r2\<close> is: the first error \<open>e1\<close> when the second
  handshake succeeds (no request is sent), and the second handshake's own error
  when it fails.
\<close>

theorem retry_outcome_lost:
  assumes "http_NewRequest env ''GET'' url = None"
    and "Dial env ''tcp'' (dial_addr env url) = Inr rawconn"
    and "Handshake env rawconn 0 \<lparr>ServerName = realHost, InsecureSkipVerify = True\<rparr> = Some e1"
    and "Handshake env rawconn 1 \<lparr>ServerName = [], InsecureSkipVerify = True\<rparr> = r2"
  shows "FederatedGet env url realHost = Inl (case r2 of None \<Rightarrow> e1 | Some e2 \<Rightarrow> e2)"
  using assms by (simp add: FederatedGet_def RoundTrip_def DialTLS_def split: option.splits)

theorem retry_outcome_lost_witness:
  "FederatedGet default_cert_peer media_url ''peer.test''
     = Inl (ErrorString ''remote error: tls: unrecognized name'')
   \<and> FederatedGet closed_peer media_url ''peer.test'' = Inl (ErrorString ''EOF'')"
  using retry_outcome_lost [where env = default_cert_peer and url = media_url
      and rawconn = "''peer.test:8448''" and realHost = "''peer.test''"
      and ?e1.0 = "ErrorString ''remote error: tls: unrecognized name''" and ?r2.0 = None]
    retry_outcome_lost [where env = closed_peer and url = media_url
      and rawconn = "''peer.test:8448''" and realHost = "''peer.test''"
      and ?e1.0 = "ErrorString ''remote error: tls: unrecognized name''"
      and ?r2.0 = "Some (ErrorString ''EOF'')"]
  by (simp add: default_cert_peer_def closed_peer_def)

end
